theory Spec2Isabelle
  imports Complex_Main
begin

section \<open>The journal-analysis edge function\<close>

text \<open>
  A shallow embedding of the \<^verbatim>\<open>analyze-journal\<close> edge function: the request handler
  \<^verbatim>\<open>serve\<close>, \<^verbatim>\<open>calculateScores\<close>, \<^verbatim>\<open>generateTherapyNote\<close>,
  \<^verbatim>\<open>normalizeSentimentResponse\<close> and \<^verbatim>\<open>normalizeEmotionResponse\<close>.

  Conventions of the embedding.
  \<^item> A JavaScript number is an exact rational (\<^typ>\<open>rat\<close>); the rounding error of IEEE
    doubles and the values NaN and the infinities are not modelled. The results of
    \<^verbatim>\<open>Math.round\<close> are integers (\<^typ>\<open>int\<close>).
  \<^item> A JavaScript string is a \<^typ>\<open>string\<close> of bytes; \<^verbatim>\<open>toUpperCase\<close> is
    modelled on ASCII letters only.
  \<^item> A thrown exception is the left injection of a sum type.
  \<^item> A classifier candidate \<^verbatim>\<open>{label: string; score: number}\<close> is a record, as the
    return types of the two normalizers declare it.
\<close>

subsection \<open>Values\<close>

datatype js_error = TypeError

record candidate =
  label :: string
  score :: rat

text \<open>The value of \<^verbatim>\<open>response.json()\<close>: the object holds its properties in the order
  of the text, and a repeated key means its last binding, as \<^verbatim>\<open>JSON.parse\<close> has it.\<close>

datatype json =
    JNull
  | JBool bool
  | JNum rat
  | JStr string
  | JArr "json list"
  | JObj "(string \<times> json) list"

subsection \<open>Library functions of JavaScript\<close>

text \<open>\<^verbatim>\<open>Math.round\<close>: the nearest integer, a half rounded up.\<close>

definition Math_round :: "rat \<Rightarrow> int" where
  "Math_round x = \<lfloor>x + 1 / 2\<rfloor>"

definition toUpperCase_char :: "char \<Rightarrow> char" where
  "toUpperCase_char c =
     (let n = (of_char c :: nat) in if 97 \<le> n \<and> n \<le> 122 then char_of (n - 32) else c)"

definition toUpperCase :: "string \<Rightarrow> string" where
  "toUpperCase s = map toUpperCase_char s"

text \<open>\<^verbatim>\<open>s.includes(sub)\<close>: \<open>sub\<close> occurs in \<open>s\<close> as a contiguous substring.\<close>

fun includes_str :: "string \<Rightarrow> string \<Rightarrow> bool" where
  "includes_str [] sub = (sub = [])"
| "includes_str (c # cs) sub = (take (length sub) (c # cs) = sub \<or> includes_str cs sub)"

definition endsWith :: "string \<Rightarrow> string \<Rightarrow> bool" where
  "endsWith s suf = (length suf \<le> length s \<and> drop (length s - length suf) s = suf)"

text \<open>\<^verbatim>\<open>s.split(sep)\<close> for a separator of one character: the segments between the
  occurrences of the separator, empty segments included, so that the result is never empty.\<close>

fun js_split :: "char \<Rightarrow> string \<Rightarrow> string list" where
  "js_split sep [] = [[]]"
| "js_split sep (c # cs) =
     (let r = js_split sep cs in if c = sep then [] # r else (c # hd r) # tl r)"

text \<open>\<^verbatim>\<open>xs.reduce(f)\<close> with no initial value: a TypeError on the empty array, else a fold
  from the left that starts at the first element.\<close>

fun reduce :: "('a \<Rightarrow> 'a \<Rightarrow> 'a) \<Rightarrow> 'a list \<Rightarrow> js_error + 'a" where
  "reduce f [] = Inl TypeError"
| "reduce f (x # xs) = Inr (foldl f x xs)"

subsection \<open>generateTherapyNote\<close>

definition joy_opener :: string where
  "joy_opener = ''Your entry reflects positive emotions. It's wonderful to see you experiencing joy. ''"

definition sadness_opener :: string where
  "sadness_opener = ''I notice you're experiencing some difficult emotions. Remember that it's okay to feel this way. ''"

definition anger_opener :: string where
  "anger_opener = ''Your frustration is valid. Consider what's at the root of these feelings. ''"

definition fear_opener :: string where
  "fear_opener = ''I can sense some anxiety in your words. Let's explore what feels overwhelming. ''"

definition generic_opener :: string where
  "generic_opener = ''Thank you for sharing your thoughts today. ''"

definition stress_high_remark :: string where
  "stress_high_remark = ''Your stress levels seem elevated. Consider taking breaks and practicing relaxation techniques. ''"

definition stress_low_remark :: string where
  "stress_low_remark = ''You seem to be managing stress well. Keep up these positive patterns. ''"

definition happiness_high_remark :: string where
  "happiness_high_remark = ''Your positive outlook is encouraging. Try to identify what's contributing to these good feelings. ''"

definition happiness_low_remark :: string where
  "happiness_low_remark = ''I notice your happiness levels are lower. Consider activities or people that typically lift your spirits. ''"

definition detailed_closer :: string where
  "detailed_closer = ''Your detailed reflection shows good self-awareness. Continue this practice of thorough self-expression.''"

definition short_closer :: string where
  "short_closer = ''Consider expanding on your feelings in future entries for deeper insights.''"

definition wordCount :: "string \<Rightarrow> nat" where
  "wordCount entry = length (js_split (CHR '' '') entry)"

definition generateTherapyNote :: "string \<Rightarrow> int \<Rightarrow> int \<Rightarrow> string \<Rightarrow> string" where
  "generateTherapyNote emotion stress happiness entry =
     (let isDetailed = wordCount entry > 100;
          note = [];
          note = note @
            (if emotion = ''joy'' then joy_opener
             else if emotion = ''sadness'' then sadness_opener
             else if emotion = ''anger'' then anger_opener
             else if emotion = ''fear'' then fear_opener
             else generic_opener);
          note = note @
            (if stress > 7 then stress_high_remark
             else if stress < 4 then stress_low_remark
             else []);
          note = note @
            (if happiness > 7 then happiness_high_remark
             else if happiness < 4 then happiness_low_remark
             else []);
          note = note @ (if isDetailed then detailed_closer else short_closer)
      in note)"

subsection \<open>calculateScores\<close>

record scores =
  stress_score :: int
  happiness_score :: int
  therapy_note :: string

definition stressEmotions :: "string list" where
  "stressEmotions = [''anger'', ''fear'', ''sadness'']"

definition calmEmotions :: "string list" where
  "calmEmotions = [''joy'', ''neutral'']"

text \<open>The dominant emotion: the reduction keeps \<open>prev\<close> only when its score is strictly
  greater than that of \<open>current\<close>.\<close>

definition dominantEmotion :: "candidate list \<Rightarrow> js_error + candidate" where
  "dominantEmotion emotions =
     reduce (\<lambda>prev current. if score prev > score current then prev else current) emotions"

definition isPositive :: "string \<Rightarrow> bool" where
  "isPositive sentimentLabel \<longleftrightarrow>
     includes_str sentimentLabel ''POS'' \<or> endsWith sentimentLabel ''_1'' \<or> sentimentLabel = ''1''"

definition isNegative :: "string \<Rightarrow> bool" where
  "isNegative sentimentLabel \<longleftrightarrow>
     includes_str sentimentLabel ''NEG'' \<or> endsWith sentimentLabel ''_0'' \<or> sentimentLabel = ''0''"

text \<open>The two computations in the body of \<^verbatim>\<open>calculateScores\<close>, each before the clamp:
  the stress score from the dominant emotion, the happiness score from the sentiment.\<close>

definition stress_of :: "candidate \<Rightarrow> int" where
  "stress_of d =
     (if label d \<in> set stressEmotions then Math_round (5 + score d * 5)
      else if label d \<in> set calmEmotions then Math_round (5 - score d * 4)
      else 5)"

definition happiness_of :: "candidate \<Rightarrow> int" where
  "happiness_of sentiment =
     (let sentimentLabel = toUpperCase (label sentiment);
          sentimentScore = score sentiment
      in if isPositive sentimentLabel then Math_round (5 + sentimentScore * 5)
         else if isNegative sentimentLabel then Math_round (5 - sentimentScore * 4)
         else 5)"

text \<open>The note is generated from the scores before they are clamped; the clamped scores are
  returned.\<close>

definition calculateScores :: "candidate \<Rightarrow> candidate list \<Rightarrow> string \<Rightarrow> js_error + scores" where
  "calculateScores sentiment emotions entry_text =
     (case dominantEmotion emotions of
        Inl e \<Rightarrow> Inl e
      | Inr d \<Rightarrow>
          (let stress = stress_of d;
               happiness = happiness_of sentiment;
               note = generateTherapyNote (label d) stress happiness entry_text
           in Inr \<lparr>stress_score = max 1 (min 10 stress),
                    happiness_score = max 1 (min 10 happiness),
                    therapy_note = note\<rparr>))"

subsection \<open>The normalizers\<close>

text \<open>
  The normalizers return the raw value they select with no check of its fields. The
  embedding reads a selected value as a \<^typ>\<open>candidate\<close>: an object whose \<open>label\<close> is a
  string and whose \<open>score\<close> is a number. A selected value that is not of this form is outside
  the typed model, and the normalizer's result is then \<open>IllTyped\<close>: nothing is claimed about
  what the handler does with it.
\<close>

datatype 'a normalized = Null | Value 'a | IllTyped

definition get_prop :: "string \<Rightarrow> (string \<times> json) list \<Rightarrow> json option" where
  "get_prop k kvs = map_of (rev kvs) k"

fun as_candidate :: "json \<Rightarrow> candidate option" where
  "as_candidate (JObj kvs) =
     (case (get_prop ''label'' kvs, get_prop ''score'' kvs) of
        (Some (JStr l), Some (JNum s)) \<Rightarrow> Some \<lparr>label = l, score = s\<rparr>
      | _ \<Rightarrow> None)"
| "as_candidate _ = None"

definition as_candidates :: "json list \<Rightarrow> candidate list option" where
  "as_candidates xs = those (map as_candidate xs)"

text \<open>\<^verbatim>\<open>[...first].sort((a, b) => b.score - a.score)\<close>: the sort of an array is stable, so
  with numeric scores the result is the stable sort by descending score.\<close>

definition sort_by_score_desc :: "candidate list \<Rightarrow> candidate list" where
  "sort_by_score_desc first = sort_key (\<lambda>c. - score c) first"

fun normalizeSentimentResponse :: "json \<Rightarrow> candidate normalized" where
  "normalizeSentimentResponse (JArr raw) =
     (case raw of
        [] \<Rightarrow> Null
      | JArr first # _ \<Rightarrow>
          (case as_candidates first of
             None \<Rightarrow> IllTyped
           | Some cs \<Rightarrow> (case sort_by_score_desc cs of [] \<Rightarrow> Null | best # _ \<Rightarrow> Value best))
      | JObj kvs # _ \<Rightarrow>
          (if get_prop ''label'' kvs \<noteq> None \<and> get_prop ''score'' kvs \<noteq> None
           then (case as_candidate (JObj kvs) of None \<Rightarrow> IllTyped | Some c \<Rightarrow> Value c)
           else Null)
      | _ # _ \<Rightarrow> Null)"
| "normalizeSentimentResponse _ = Null"

fun normalizeEmotionResponse :: "json \<Rightarrow> candidate list normalized" where
  "normalizeEmotionResponse (JArr raw) =
     (case raw of
        JArr first # _ \<Rightarrow> (case as_candidates first of None \<Rightarrow> IllTyped | Some cs \<Rightarrow> Value cs)
      | _ \<Rightarrow> (case as_candidates raw of None \<Rightarrow> IllTyped | Some cs \<Rightarrow> Value cs))"
| "normalizeEmotionResponse _ = Null"

subsection \<open>The request handler\<close>

text \<open>
  The handler's surroundings are inputs of the model: the environment variable
  \<^verbatim>\<open>HUGGING_FACE_ACCESS_TOKEN\<close>, what each of the two \<^verbatim>\<open>fetch\<close> calls yields, and
  whether the persistence update reports an error. What the handler does to the outside is
  the list of its events, in the order of time; a classifier call is recorded when it is
  issued, whatever it yields. The database URL and key are taken to be configured, and the
  text of an error message is not modelled.
\<close>

datatype fetch_result =
    FetchRejects      \<comment> \<open>\<^verbatim>\<open>fetch\<close> throws\<close>
  | NotOk             \<comment> \<open>a response whose \<^verbatim>\<open>ok\<close> is false\<close>
  | OkNotJson         \<comment> \<open>\<^verbatim>\<open>ok\<close>, and \<^verbatim>\<open>response.json()\<close> throws\<close>
  | OkJson json       \<comment> \<open>\<^verbatim>\<open>ok\<close>, with the parsed body\<close>

record env =
  HF_TOKEN :: "string option"
  sentimentResponse :: fetch_result
  emotionResponse :: fetch_result
  updateError :: "string option"

text \<open>The request: \<open>body\<close> is \<open>None\<close> when \<^verbatim>\<open>req.json()\<close> throws.\<close>

record request =
  req_method :: string
  body :: "json option"
  authorization :: "string option"

datatype classifier = SentimentModel | EmotionModel

datatype db_value = DbNull | DbInt int | DbText string | DbBool bool

datatype event =
    Fetch classifier "json option"
      \<comment> \<open>a classifier call and its \<^verbatim>\<open>inputs\<close>\<close>
  | Update "(string \<times> db_value) list" "json option" string
      \<comment> \<open>the update of \<^verbatim>\<open>journals\<close>: the fields written, the \<^verbatim>\<open>id\<close> it is
          scoped to, the Authorization header it is sent with\<close>

datatype response =
    Preflight         \<comment> \<open>the answer to OPTIONS\<close>
  | Success scores    \<comment> \<open>status 200 with the scores and the note\<close>
  | Failure           \<comment> \<open>status 500 with an error message\<close>

datatype outcome = Responds response "event list" | IllTypedPayload

definition defaultSentiment :: candidate where
  "defaultSentiment = \<lparr>label = ''NEUTRAL'', score = 0\<rparr>"

definition defaultEmotions :: "candidate list" where
  "defaultEmotions = [\<lparr>label = ''neutral'', score = 1\<rparr>]"

text \<open>\<^verbatim>\<open>if (HF_TOKEN)\<close>: an unset variable and the empty string are both falsy.\<close>

definition truthy :: "string option \<Rightarrow> bool" where
  "truthy tok \<longleftrightarrow> tok \<noteq> None \<and> tok \<noteq> Some []"

text \<open>A property of the parsed request body; \<open>None\<close> is \<^verbatim>\<open>undefined\<close>.\<close>

fun field :: "json \<Rightarrow> string \<Rightarrow> json option" where
  "field (JObj kvs) k = get_prop k kvs"
| "field _ k = None"

definition update_fields :: "scores \<Rightarrow> (string \<times> db_value) list" where
  "update_fields r =
     [(''stress_score'', DbInt (stress_score r)),
      (''happiness_score'', DbNull),
      (''therapy_note'', DbText (therapy_note r)),
      (''therapy_note_viewed'', DbBool False)]"

text \<open>The second half of the inner \<^verbatim>\<open>try\<close> block, from the emotion call on: the
  sentiment so far, the emotions, and the calls made.\<close>

definition analyse_emotion ::
  "env \<Rightarrow> json option \<Rightarrow> candidate \<Rightarrow> (candidate \<times> candidate list \<times> event list) option" where
  "analyse_emotion e entry_text sentiment =
     (let calls = [Fetch SentimentModel entry_text, Fetch EmotionModel entry_text] in
      case emotionResponse e of
        FetchRejects \<Rightarrow> Some (sentiment, defaultEmotions, calls)
      | NotOk \<Rightarrow> Some (sentiment, defaultEmotions, calls)
      | OkNotJson \<Rightarrow> Some (sentiment, defaultEmotions, calls)
      | OkJson emotionData \<Rightarrow>
          (case normalizeEmotionResponse emotionData of
             Null \<Rightarrow> Some (sentiment, defaultEmotions, calls)
           | Value emotions \<Rightarrow> Some (sentiment, emotions, calls)
           | IllTyped \<Rightarrow> None))"

text \<open>The analysis before the scores: the defaults when the token is falsy; else the inner
  \<^verbatim>\<open>try\<close> block, where an exception of the sentiment call skips the emotion call.
  \<open>None\<close> stands for an ill-typed payload.\<close>

definition analyse ::
  "env \<Rightarrow> json option \<Rightarrow> (candidate \<times> candidate list \<times> event list) option" where
  "analyse e entry_text =
     (if truthy (HF_TOKEN e) then
        (case sentimentResponse e of
           FetchRejects \<Rightarrow> Some (defaultSentiment, defaultEmotions, [Fetch SentimentModel entry_text])
         | OkNotJson \<Rightarrow> Some (defaultSentiment, defaultEmotions, [Fetch SentimentModel entry_text])
         | NotOk \<Rightarrow> analyse_emotion e entry_text defaultSentiment
         | OkJson sentimentData \<Rightarrow>
             (case normalizeSentimentResponse sentimentData of
                Null \<Rightarrow> analyse_emotion e entry_text defaultSentiment
              | Value sentiment \<Rightarrow> analyse_emotion e entry_text sentiment
              | IllTyped \<Rightarrow> None))
      else Some (defaultSentiment, defaultEmotions, []))"

text \<open>\<^verbatim>\<open>calculateScores(sentiment, emotions, entry_text)\<close> as the handler calls it: the entry
  text is whatever the body held, and \<^verbatim>\<open>entry.split\<close> throws a TypeError in
  \<^verbatim>\<open>generateTherapyNote\<close> when it is not a string. Both exceptions of the call are caught
  by the same handler, so their order is not modelled.\<close>

definition calculateScores_any ::
  "candidate \<Rightarrow> candidate list \<Rightarrow> json option \<Rightarrow> js_error + scores" where
  "calculateScores_any sentiment emotions entry_text =
     (case entry_text of
        Some (JStr t) \<Rightarrow> calculateScores sentiment emotions t
      | _ \<Rightarrow> Inl TypeError)"

definition serve :: "env \<Rightarrow> request \<Rightarrow> outcome" where
  "serve e req =
     (if req_method req = ''OPTIONS'' then Responds Preflight []
      else
        (case body req of
           None \<Rightarrow> Responds Failure []
         | Some JNull \<Rightarrow> Responds Failure []
         | Some b \<Rightarrow>
             (let entry_text = field b ''entry_text'';
                  journal_id = field b ''journal_id''
              in case analyse e entry_text of
                   None \<Rightarrow> IllTypedPayload
                 | Some (sentiment, emotions, calls) \<Rightarrow>
                     (case calculateScores_any sentiment emotions entry_text of
                        Inl err \<Rightarrow> Responds Failure calls
                      | Inr r \<Rightarrow>
                          (let authHeader = (case authorization req of None \<Rightarrow> [] | Some a \<Rightarrow> a);
                               events = calls @ [Update (update_fields r) journal_id authHeader]
                           in if updateError e \<noteq> None then Responds Failure events
                              else Responds (Success r) events)))))"

text \<open>The entry text of an invocation, as far as the handler gets one: none when the body
  does not parse or is null, else the property \<^verbatim>\<open>entry_text\<close> of the body.\<close>

definition entry_text_of :: "request \<Rightarrow> json option" where
  "entry_text_of req = (case body req of None \<Rightarrow> None | Some b \<Rightarrow> field b ''entry_text'')"

subsection \<open>The persistence collaborator\<close>

text \<open>Modelled from the spec: the key-value update operation scoped to one record that the
  persistence collaborator supplies (the database client is not part of the repository). A
  record maps its column names to values; the update stores each field it is given.\<close>

type_synonym row = "string \<rightharpoonup> db_value"

definition apply_update :: "(string \<times> db_value) list \<Rightarrow> row \<Rightarrow> row" where
  "apply_update fs r = foldl (\<lambda>r' (k, v). r'(k \<mapsto> v)) r fs"

subsection \<open>Notions of the specification\<close>

text \<open>The first member, in list order, whose confidence is maximal.\<close>

definition first_maximum :: "candidate list \<Rightarrow> candidate option" where
  "first_maximum emotions = find (\<lambda>e. \<forall>e'\<in>set emotions. score e' \<le> score e) emotions"

text \<open>The whitespace-delimited word count: the number of maximal runs of characters that are
  not whitespace.\<close>

definition is_whitespace :: "char \<Rightarrow> bool" where
  "is_whitespace c \<longleftrightarrow> c \<in> set [CHR '' '', CHR 0x09, CHR 0x0A, CHR 0x0B, CHR 0x0C, CHR 0x0D]"

fun count_words :: "bool \<Rightarrow> string \<Rightarrow> nat" where
  "count_words in_word [] = 0"
| "count_words in_word (c # cs) =
     (if is_whitespace c then count_words False cs
      else (if in_word then 0 else 1) + count_words True cs)"

definition whitespace_word_count :: "string \<Rightarrow> nat" where
  "whitespace_word_count entry = count_words False entry"

text \<open>The four fragments of a note, each selected on its own.\<close>

definition opener_for :: "string \<Rightarrow> string" where
  "opener_for emotion =
     (if emotion = ''joy'' then joy_opener
      else if emotion = ''sadness'' then sadness_opener
      else if emotion = ''anger'' then anger_opener
      else if emotion = ''fear'' then fear_opener
      else generic_opener)"

definition stress_remark_for :: "int \<Rightarrow> string" where
  "stress_remark_for stress =
     (if stress > 7 then stress_high_remark else if stress < 4 then stress_low_remark else [])"

definition happiness_remark_for :: "int \<Rightarrow> string" where
  "happiness_remark_for happiness =
     (if happiness > 7 then happiness_high_remark
      else if happiness < 4 then happiness_low_remark else [])"

text \<open>A flat list of candidates as a payload.\<close>

definition candidate_json :: "candidate \<Rightarrow> json" where
  "candidate_json c = JObj [(''label'', JStr (label c)), (''score'', JNum (score c))]"

subsection \<open>Example inputs\<close>

text \<open>A sentiment payload in the nested shape, an environment for each situation the
  properties below look at, and requests with and without an entry text.\<close>

definition sentiment_payload :: json where
  "sentiment_payload = JArr [JArr (map candidate_json
     [\<lparr>label = ''NEGATIVE'', score = 1 / 5\<rparr>, \<lparr>label = ''POSITIVE'', score = 4 / 5\<rparr>])]"

definition env_no_token :: env where
  "env_no_token = \<lparr>HF_TOKEN = None, sentimentResponse = FetchRejects,
     emotionResponse = FetchRejects, updateError = None\<rparr>"

definition env_emotion_not_ok :: env where
  "env_emotion_not_ok = \<lparr>HF_TOKEN = Some ''hf_token'',
     sentimentResponse = OkJson sentiment_payload,
     emotionResponse = NotOk, updateError = None\<rparr>"

definition env_both_not_ok :: env where
  "env_both_not_ok = \<lparr>HF_TOKEN = Some ''hf_token'', sentimentResponse = NotOk,
     emotionResponse = NotOk, updateError = None\<rparr>"

definition env_emotion_empty :: env where
  "env_emotion_empty = \<lparr>HF_TOKEN = Some ''hf_token'',
     sentimentResponse = OkJson sentiment_payload,
     emotionResponse = OkJson (JArr []), updateError = None\<rparr>"

definition post :: "json \<Rightarrow> request" where
  "post b = \<lparr>req_method = ''POST'', body = Some b, authorization = Some ''Bearer jwt''\<rparr>"

definition body_with_text :: "string \<Rightarrow> json" where
  "body_with_text t = JObj [(''entry_text'', JStr t), (''journal_id'', JStr ''j1'')]"

definition body_without_text :: json where
  "body_without_text = JObj [(''journal_id'', JStr ''j1'')]"

section \<open>Properties\<close>

subsection \<open>Auxiliary facts\<close>

lemma js_split_nonempty: "js_split sep s \<noteq> []"
  by (induction s) (auto simp: Let_def)

lemma length_js_split: "length (js_split sep s) = Suc (length (filter (\<lambda>c. c = sep) s))"
proof (induction s)
  case Nil
  show ?case by simp
next
  case (Cons c cs)
  have "js_split sep cs \<noteq> []" by (rule js_split_nonempty)
  then have "length (tl (js_split sep cs)) = length (js_split sep cs) - 1" by simp
  with Cons show ?case by (auto simp: Let_def)
qed

lemma Math_round_7_5: "Math_round (7 / 5) = 1"
  by code_simp

lemma Math_round_19_2: "Math_round (19 / 2) = 10"
  by code_simp

lemma wordCount_wonderful: "wordCount ''I feel wonderful and calm today'' = 6"
  by code_simp

lemma stress_of_joy_09: "stress_of \<lparr>label = ''joy'', score = 9 / 10\<rparr> = 1"
  by (simp add: stress_of_def stressEmotions_def calmEmotions_def Math_round_7_5)

lemma isPositive_POSITIVE: "isPositive (toUpperCase ''POSITIVE'')"
  by code_simp

lemma Math_round_1: "Math_round 1 = 1"
  by code_simp

lemma Math_round_9: "Math_round 9 = 9"
  by code_simp

lemma wordCount_spaces: "wordCount entry = Suc (length (filter (\<lambda>c. c = CHR '' '') entry))"
  by (simp add: wordCount_def length_js_split)

lemma wordCount_empty: "wordCount [] = 1"
  by (simp add: wordCount_def)

lemma wordCount_ok: "wordCount ''ok'' = 1"
  by code_simp

lemma stress_of_neutral_1: "stress_of \<lparr>label = ''neutral'', score = 1\<rparr> = 1"
  by (simp add: stress_of_def stressEmotions_def calmEmotions_def Math_round_1)

lemma NEUTRAL_not_positive: "\<not> isPositive (toUpperCase ''NEUTRAL'')"
  by code_simp

lemma NEUTRAL_not_negative: "\<not> isNegative (toUpperCase ''NEUTRAL'')"
  by code_simp

lemma happiness_of_default: "happiness_of defaultSentiment = 5"
  by (simp add: happiness_of_def defaultSentiment_def NEUTRAL_not_positive NEUTRAL_not_negative)

lemma happiness_of_POSITIVE_08: "happiness_of \<lparr>label = ''POSITIVE'', score = 4 / 5\<rparr> = 9"
  by (simp add: happiness_of_def isPositive_POSITIVE Math_round_9)

lemma calculateScores_defaultEmotions:
  "calculateScores s defaultEmotions t =
     Inr \<lparr>stress_score = 1, happiness_score = max 1 (min 10 (happiness_of s)),
          therapy_note = generateTherapyNote ''neutral'' 1 (happiness_of s) t\<rparr>"
  by (simp add: calculateScores_def dominantEmotion_def defaultEmotions_def Let_def stress_of_neutral_1)

lemma generateTherapyNote_fragments:
  "generateTherapyNote emotion stress happiness entry =
     opener_for emotion @ stress_remark_for stress @ happiness_remark_for happiness
       @ (if wordCount entry > 100 then detailed_closer else short_closer)"
  by (simp add: generateTherapyNote_def opener_for_def stress_remark_for_def
      happiness_remark_for_def Let_def)

lemma remarks_nonempty:
  "stress_high_remark \<noteq> []" "stress_low_remark \<noteq> []"
  "happiness_high_remark \<noteq> []" "happiness_low_remark \<noteq> []"
  by (simp_all add: stress_high_remark_def stress_low_remark_def
      happiness_high_remark_def happiness_low_remark_def)

lemma count_words_spaces: "count_words b (replicate n (CHR '' '')) = 0"
  by (induction n arbitrary: b) (simp_all add: is_whitespace_def)

lemma filter_replicate_spaces:
  "filter (\<lambda>c. c = CHR '' '') (replicate n (CHR '' '')) = replicate n (CHR '' '')"
  by (induction n) simp_all

lemma count_words_lines:
  "count_words False (concat (replicate n [CHR ''w'', CHR 0x0A])) = n"
  by (induction n) (simp_all add: is_whitespace_def)

lemma no_space_in_lines:
  "filter (\<lambda>c. c = CHR '' '') (concat (replicate n [CHR ''w'', CHR 0x0A])) = []"
  by (induction n) simp_all

lemma foldl_pick_last_max:
  fixes pick :: "candidate \<Rightarrow> candidate \<Rightarrow> candidate"
  defines "pick \<equiv> (\<lambda>prev current. if score prev > score current then prev else current)"
  shows "\<exists>pre post. x # xs = pre @ foldl pick x xs # post
           \<and> (\<forall>e\<in>set pre. score e \<le> score (foldl pick x xs))
           \<and> (\<forall>e\<in>set post. score e < score (foldl pick x xs))"
proof (induction xs rule: rev_induct)
  case Nil
  have "x # [] = [] @ foldl pick x [] # []" by simp
  then show ?case by fastforce
next
  case (snoc y ys)
  let ?d = "foldl pick x ys"
  from snoc obtain pre post where dec: "x # ys = pre @ ?d # post"
    and pre: "\<forall>e\<in>set pre. score e \<le> score ?d"
    and post: "\<forall>e\<in>set post. score e < score ?d" by blast
  show ?case
  proof (cases "score ?d > score y")
    case True
    then have r: "foldl pick x (ys @ [y]) = ?d" by (simp add: pick_def)
    have "x # (ys @ [y]) = pre @ ?d # (post @ [y])" using dec by simp
    moreover have "\<forall>e\<in>set (post @ [y]). score e < score ?d" using post True by auto
    ultimately show ?thesis using pre unfolding r by blast
  next
    case False
    then have r: "foldl pick x (ys @ [y]) = y" by (simp add: pick_def)
    have "x # (ys @ [y]) = (x # ys) @ y # []" by simp
    moreover have "\<forall>e\<in>set (x # ys). score e \<le> score y"
    proof
      fix e assume "e \<in> set (x # ys)"
      then have "e \<in> set pre \<or> e = ?d \<or> e \<in> set post" using dec
        by (metis Un_iff set_ConsD set_append)
      then have "score e \<le> score ?d" using pre post by auto
      then show "score e \<le> score y" using False by simp
    qed
    ultimately show ?thesis unfolding r by (metis empty_iff list.set(1))
  qed
qed

subsection \<open>The scores\<close>

text \<open>
  C2. For every sentiment with a confidence in [0,1] and every non-empty emotion list with
  confidences in [0,1], whatever the labels, the score calculation returns (it does not
  throw), and the stress score and the happiness score it returns are integers between 1
  and 10.
\<close>

theorem calculateScores_clamped:
  assumes "emotions \<noteq> []"
    and "0 \<le> score sentiment \<and> score sentiment \<le> 1"
    and "\<forall>e\<in>set emotions. 0 \<le> score e \<and> score e \<le> 1"
  shows "\<exists>r. calculateScores sentiment emotions entry_text = Inr r
           \<and> 1 \<le> stress_score r \<and> stress_score r \<le> 10
           \<and> 1 \<le> happiness_score r \<and> happiness_score r \<le> 10"
proof -
  from assms(1) obtain x xs where "emotions = x # xs" by (cases emotions) auto
  then obtain d where "dominantEmotion emotions = Inr d"
    by (simp add: dominantEmotion_def)
  then show ?thesis
    by (simp add: calculateScores_def Let_def)
qed

theorem calculateScores_clamped_witness:
  "\<exists>r. calculateScores \<lparr>label = ''NEGATIVE'', score = 1\<rparr>
          [\<lparr>label = ''anger'', score = 1\<rparr>, \<lparr>label = ''joy'', score = 0\<rparr>] ''bad day'' = Inr r
       \<and> 1 \<le> stress_score r \<and> stress_score r \<le> 10
       \<and> 1 \<le> happiness_score r \<and> happiness_score r \<le> 10"
  using calculateScores_clamped [of "[\<lparr>label = ''anger'', score = 1\<rparr>, \<lparr>label = ''joy'', score = 0\<rparr>]"
      "\<lparr>label = ''NEGATIVE'', score = 1\<rparr>" "''bad day''"]
  by simp

text \<open>
  C5, as the code has it. For every non-empty emotion list the dominant emotion is a member
  of maximal confidence, and among the members of maximal confidence it is the last one in
  list order: every member before it has a confidence at most its own, every member after
  it a strictly smaller one.
\<close>

theorem dominantEmotion_last_maximum:
  assumes "emotions \<noteq> []"
  shows "\<exists>pre d post. emotions = pre @ d # post \<and> dominantEmotion emotions = Inr d
           \<and> (\<forall>e\<in>set pre. score e \<le> score d) \<and> (\<forall>e\<in>set post. score e < score d)"
proof -
  from assms obtain x xs where e: "emotions = x # xs" by (cases emotions) auto
  show ?thesis
    using foldl_pick_last_max [of x xs] unfolding e dominantEmotion_def by auto
qed

theorem dominantEmotion_last_maximum_witness:
  "\<exists>pre d post. [\<lparr>label = ''joy'', score = 1/2\<rparr>, \<lparr>label = ''sadness'', score = 1/2\<rparr>] = pre @ d # post
     \<and> dominantEmotion [\<lparr>label = ''joy'', score = 1/2\<rparr>, \<lparr>label = ''sadness'', score = 1/2\<rparr>] = Inr d
     \<and> (\<forall>e\<in>set pre. score e \<le> score d) \<and> (\<forall>e\<in>set post. score e < score d)"
  using dominantEmotion_last_maximum [of "[\<lparr>label = ''joy'', score = 1/2\<rparr>, \<lparr>label = ''sadness'', score = 1/2\<rparr>]"]
  by simp

text \<open>
  C5, as the specification states it, fails on a tie: of joy and sadness, both at confidence
  1/2 and in this order, the first-seen member of maximal confidence is joy, and the score
  calculation selects sadness.
\<close>

theorem dominantEmotion_tie_counterexample:
  "dominantEmotion [\<lparr>label = ''joy'', score = 1/2\<rparr>, \<lparr>label = ''sadness'', score = 1/2\<rparr>]
     = Inr \<lparr>label = ''sadness'', score = 1/2\<rparr>
   \<and> first_maximum [\<lparr>label = ''joy'', score = 1/2\<rparr>, \<lparr>label = ''sadness'', score = 1/2\<rparr>]
     = Some \<lparr>label = ''joy'', score = 1/2\<rparr>"
  by (simp add: dominantEmotion_def first_maximum_def)

text \<open>
  C4, as the code has it. For the entry text "I feel wonderful and calm today", a dominant
  emotion joy at confidence 0.9 and a sentiment at confidence 0.9 whose label is positive:
  the stress score is round(5 - 0.9 * 4) = round(1.4) = 1, the happiness score is
  round(5 + 0.9 * 5) = round(9.5) = 10, and the note is the joy opener, the low-stress remark,
  the high-happiness remark and the short-entry closer, the entry having 6 words. (In double
  arithmetic 0.9 * 5 is exactly 4.5 and 5 - 0.9 * 4 is 1.4 up to a rounding error, so the
  rounded scores are the same.)
\<close>

theorem joy_positive_example:
  assumes "dominantEmotion emotions = Inr \<lparr>label = ''joy'', score = 9 / 10\<rparr>"
    and "isPositive (toUpperCase l)"
  shows "calculateScores \<lparr>label = l, score = 9 / 10\<rparr> emotions ''I feel wonderful and calm today''
           = Inr \<lparr>stress_score = 1, happiness_score = 10,
                  therapy_note = joy_opener @ stress_low_remark @ happiness_high_remark @ short_closer\<rparr>
         \<and> wordCount ''I feel wonderful and calm today'' \<le> 100"
  using assms
  by (simp add: calculateScores_def Let_def stress_of_joy_09 happiness_of_def Math_round_19_2
      generateTherapyNote_def wordCount_wonderful)

theorem joy_positive_example_witness:
  "calculateScores \<lparr>label = ''POSITIVE'', score = 9 / 10\<rparr> [\<lparr>label = ''joy'', score = 9 / 10\<rparr>]
       ''I feel wonderful and calm today''
           = Inr \<lparr>stress_score = 1, happiness_score = 10,
                  therapy_note = joy_opener @ stress_low_remark @ happiness_high_remark @ short_closer\<rparr>
         \<and> wordCount ''I feel wonderful and calm today'' \<le> 100"
  using joy_positive_example [of "[\<lparr>label = ''joy'', score = 9 / 10\<rparr>]" "''POSITIVE''"]
  by (simp add: dominantEmotion_def isPositive_POSITIVE)

text \<open>
  C4, as the specification states it, fails on the stress score: at the input of the example
  the score calculation returns the stress score 1, not 2.
\<close>

theorem joy_positive_stress_counterexample:
  "map_sum id stress_score
     (calculateScores \<lparr>label = ''POSITIVE'', score = 9 / 10\<rparr> [\<lparr>label = ''joy'', score = 9 / 10\<rparr>]
        ''I feel wonderful and calm today'') = Inr 1
   \<and> map_sum id stress_score
     (calculateScores \<lparr>label = ''POSITIVE'', score = 9 / 10\<rparr> [\<lparr>label = ''joy'', score = 9 / 10\<rparr>]
        ''I feel wonderful and calm today'') \<noteq> Inr 2"
  by (simp add: calculateScores_def Let_def dominantEmotion_def stress_of_joy_09)

subsection \<open>The note\<close>

text \<open>
  C8, as the code has it. For every dominant emotion label, stress score, happiness score and
  entry text, the note is the concatenation, in this order, of: the opener selected by exact
  match of the label on joy, sadness, anger and fear, else the generic opener; a stress remark,
  present exactly when the stress score is above 7 or below 4; a happiness remark, present
  exactly when the happiness score is above 7 or below 4; and a closer, which is the detailed
  one exactly when splitting the entry at every single space character gives more than 100
  segments, that is, when the entry holds at least 100 space characters. The note is a
  function of these four inputs alone.
\<close>

theorem generateTherapyNote_structure:
  "generateTherapyNote emotion stress happiness entry =
     opener_for emotion @ stress_remark_for stress @ happiness_remark_for happiness
       @ (if 100 \<le> length (filter (\<lambda>c. c = CHR '' '') entry) then detailed_closer else short_closer)
   \<and> (emotion \<notin> set [''joy'', ''sadness'', ''anger'', ''fear''] \<longrightarrow> opener_for emotion = generic_opener)
   \<and> opener_for ''joy'' = joy_opener \<and> opener_for ''sadness'' = sadness_opener
   \<and> opener_for ''anger'' = anger_opener \<and> opener_for ''fear'' = fear_opener
   \<and> (stress_remark_for stress \<noteq> [] \<longleftrightarrow> stress > 7 \<or> stress < 4)
   \<and> (happiness_remark_for happiness \<noteq> [] \<longleftrightarrow> happiness > 7 \<or> happiness < 4)"
proof -
  have a: "wordCount entry > 100 \<longleftrightarrow> 100 \<le> length (filter (\<lambda>c. c = CHR '' '') entry)"
    by (simp add: wordCount_spaces) arith
  have b: "stress_remark_for stress \<noteq> [] \<longleftrightarrow> stress > 7 \<or> stress < 4"
    by (simp add: stress_remark_for_def remarks_nonempty)
  have c: "happiness_remark_for happiness \<noteq> [] \<longleftrightarrow> happiness > 7 \<or> happiness < 4"
    by (simp add: happiness_remark_for_def remarks_nonempty)
  have d: "emotion \<notin> set [''joy'', ''sadness'', ''anger'', ''fear''] \<longrightarrow> opener_for emotion = generic_opener"
    by (simp add: opener_for_def)
  have e: "opener_for ''joy'' = joy_opener \<and> opener_for ''sadness'' = sadness_opener
   \<and> opener_for ''anger'' = anger_opener \<and> opener_for ''fear'' = fear_opener"
    by (simp add: opener_for_def)
  show ?thesis
    unfolding generateTherapyNote_fragments using a b c d e by simp
qed

theorem generateTherapyNote_structure_witness:
  "generateTherapyNote ''calm'' 8 2 ''a b'' =
     generic_opener @ stress_high_remark @ happiness_low_remark @ short_closer"
  using generateTherapyNote_structure [of "''calm''" 8 2 "''a b''"]
  by (simp add: stress_remark_for_def happiness_remark_for_def)

text \<open>
  C8, as the specification states it, fails on the closer: the code counts the segments
  between single spaces, not the words between runs of whitespace. An entry of 100 spaces
  has no word and gets the closer for detailed entries; an entry of 101 words that are
  separated by line breaks gets the closer for short entries.
\<close>

theorem closer_word_count_counterexample:
  "whitespace_word_count (replicate 100 (CHR '' '')) = 0
   \<and> generateTherapyNote ''joy'' 5 5 (replicate 100 (CHR '' '')) = joy_opener @ detailed_closer
   \<and> whitespace_word_count (concat (replicate 101 [CHR ''w'', CHR 0x0A])) = 101
   \<and> generateTherapyNote ''joy'' 5 5 (concat (replicate 101 [CHR ''w'', CHR 0x0A]))
       = joy_opener @ short_closer"
  by (simp add: whitespace_word_count_def count_words_spaces count_words_lines
      generateTherapyNote_fragments wordCount_spaces filter_replicate_spaces no_space_in_lines
      opener_for_def stress_remark_for_def happiness_remark_for_def)

subsection \<open>The normalizers\<close>

lemma as_candidate_candidate_json: "as_candidate (candidate_json c) = Some c"
  by (simp add: candidate_json_def get_prop_def)

lemma as_candidates_candidate_json: "as_candidates (map candidate_json xs) = Some xs"
  by (induction xs) (simp_all add: as_candidates_def as_candidate_candidate_json)

lemma sort_key_head_min:
  assumes "sort_key f xs = b # rest"
  shows "b \<in> set xs \<and> (\<forall>e\<in>set xs. f b \<le> f e)"
proof -
  have "sorted (map f (sort_key f xs))" by (rule sorted_sort_key)
  then have "\<forall>e\<in>set (sort_key f xs). f b \<le> f e" using assms by auto
  moreover have "set (sort_key f xs) = set xs" by simp
  moreover have "b \<in> set (sort_key f xs)" using assms by simp
  ultimately show ?thesis by blast
qed

lemma find_filter_hd: "find P xs = (case filter P xs of [] \<Rightarrow> None | y # _ \<Rightarrow> Some y)"
  by (induction xs) simp_all

text \<open>The head of a stable sort is the first element, in the order of the input, whose key
  is minimal.\<close>

lemma sort_key_head_first:
  fixes f :: "'a \<Rightarrow> 'b::linorder"
  assumes "sort_key f xs = b # rest"
  shows "find (\<lambda>e. \<forall>e'\<in>set xs. f e \<le> f e') xs = Some b"
proof -
  from sort_key_head_min [OF assms] have bmin: "\<forall>e\<in>set xs. f b \<le> f e" and "b \<in> set xs" by auto
  have "filter (\<lambda>e. \<forall>e'\<in>set xs. f e \<le> f e') xs = filter (\<lambda>y. f y = f b) xs"
  proof (rule filter_cong [OF refl])
    fix x assume "x \<in> set xs"
    then show "(\<forall>e'\<in>set xs. f x \<le> f e') = (f x = f b)"
      using bmin \<open>b \<in> set xs\<close> by (auto intro: antisym)
  qed
  also have "\<dots> = filter (\<lambda>y. f y = f b) (sort_key f xs)" by (simp add: sort_key_stable)
  also have "\<dots> = b # filter (\<lambda>y. f y = f b) rest" using assms by simp
  finally show ?thesis by (simp add: find_filter_hd)
qed

lemma best_is_first_maximum:
  "(case sort_by_score_desc cs of [] \<Rightarrow> Null | best # _ \<Rightarrow> Value best)
     = (case first_maximum cs of None \<Rightarrow> Null | Some b \<Rightarrow> Value b)"
proof (cases "sort_by_score_desc cs")
  case Nil
  then have "cs = []"
    using length_sort [of "\<lambda>c. - score c" cs] by (simp add: sort_by_score_desc_def)
  then show ?thesis by (simp add: sort_by_score_desc_def first_maximum_def)
next
  case (Cons b rest)
  then have "find (\<lambda>e. \<forall>e'\<in>set cs. - score e \<le> - score e') cs = Some b"
    unfolding sort_by_score_desc_def by (rule sort_key_head_first)
  then have "first_maximum cs = Some b" by (simp add: first_maximum_def)
  with Cons show ?thesis by simp
qed

lemma first_maximum_Cons:
  "first_maximum (x # ys) = Some x \<longleftrightarrow> (\<forall>e\<in>set ys. score e \<le> score x)"
proof (cases "\<forall>e\<in>set ys. score e \<le> score x")
  case True
  then show ?thesis by (simp add: first_maximum_def)
next
  case False
  let ?P = "\<lambda>e. \<forall>e'\<in>set (x # ys). score e' \<le> score e"
  have "\<not> ?P x" using False by simp
  then have "find ?P (x # ys) \<noteq> Some x" by (auto simp: find_Some_iff)
  with False show ?thesis by (simp add: first_maximum_def)
qed

lemma first_maximum_exists: "first_maximum (x # ys) \<noteq> None"
proof -
  obtain b rest where "sort_key (\<lambda>c. - score c) (x # ys) = b # rest"
    using length_sort [of "\<lambda>c. - score c" "x # ys"]
    by (cases "sort_key (\<lambda>c. - score c) (x # ys)") auto
  then have "find (\<lambda>e. \<forall>e'\<in>set (x # ys). - score e \<le> - score e') (x # ys) = Some b"
    by (rule sort_key_head_first)
  then show ?thesis by (simp add: first_maximum_def)
qed

lemma normalizeSentiment_nested:
  "normalizeSentimentResponse (JArr [JArr (map candidate_json xs)])
     = (case first_maximum xs of None \<Rightarrow> Null | Some b \<Rightarrow> Value b)"
  by (simp add: as_candidates_candidate_json best_is_first_maximum)

lemma normalizeSentiment_flat:
  "normalizeSentimentResponse (JArr (map candidate_json xs))
     = (case xs of [] \<Rightarrow> Null | x # _ \<Rightarrow> Value x)"
proof (cases xs)
  case Nil
  then show ?thesis by simp
next
  case (Cons x ys)
  have "as_candidate (JObj [(''label'', JStr (label x)), (''score'', JNum (score x))]) = Some x"
    using as_candidate_candidate_json [of x] by (simp add: candidate_json_def)
  then show ?thesis using Cons by (simp add: candidate_json_def get_prop_def)
qed

lemma normalizeEmotion_nested:
  "normalizeEmotionResponse (JArr [JArr (map candidate_json xs)]) = Value xs"
  by (simp add: as_candidates_candidate_json)

lemma normalizeEmotion_flat:
  "normalizeEmotionResponse (JArr (map candidate_json xs)) = Value xs"
proof (cases xs)
  case Nil
  then show ?thesis by (simp add: as_candidates_def)
next
  case (Cons x ys)
  have "as_candidates (candidate_json x # map candidate_json ys) = Some (x # ys)"
    using as_candidates_candidate_json [of "x # ys"] by simp
  then show ?thesis using Cons by (simp add: candidate_json_def)
qed

text \<open>A payload that is not an array has no result in either normalizer.\<close>

lemma not_array_Null:
  assumes "\<forall>xs. p \<noteq> JArr xs"
  shows "normalizeSentimentResponse p = Null \<and> normalizeEmotionResponse p = Null"
  using assms by (cases p) simp_all

text \<open>
  C6, as the code has it. For every flat list \<open>xs\<close> of candidates, the emotion normalizer
  gives the same output, all candidates in order, for the singleton-wrapped payload and for
  the unwrapped one. The sentiment normalizer selects the first candidate of maximal
  confidence from the wrapped payload and the first candidate of the list from the unwrapped
  one (no result from either when the list is empty); the two outputs are equal exactly when
  the list is empty or no candidate has a greater confidence than the first.
\<close>

theorem normalizers_wrapped_unwrapped:
  "normalizeEmotionResponse (JArr [JArr (map candidate_json xs)]) = Value xs
   \<and> normalizeEmotionResponse (JArr (map candidate_json xs)) = Value xs
   \<and> normalizeSentimentResponse (JArr [JArr (map candidate_json xs)])
       = (case first_maximum xs of None \<Rightarrow> Null | Some b \<Rightarrow> Value b)
   \<and> normalizeSentimentResponse (JArr (map candidate_json xs))
       = (case xs of [] \<Rightarrow> Null | x # _ \<Rightarrow> Value x)
   \<and> (normalizeSentimentResponse (JArr [JArr (map candidate_json xs)])
         = normalizeSentimentResponse (JArr (map candidate_json xs))
       \<longleftrightarrow> xs = [] \<or> (\<forall>e\<in>set xs. score e \<le> score (hd xs)))"
proof -
  have "(case first_maximum xs of None \<Rightarrow> Null | Some b \<Rightarrow> Value b)
          = (case xs of [] \<Rightarrow> Null | x # _ \<Rightarrow> Value x)
        \<longleftrightarrow> xs = [] \<or> (\<forall>e\<in>set xs. score e \<le> score (hd xs))"
  proof (cases xs)
    case Nil
    then show ?thesis by (simp add: first_maximum_def)
  next
    case (Cons x ys)
    obtain b where b: "first_maximum (x # ys) = Some b"
      using first_maximum_exists [of x ys] by auto
    show ?thesis using first_maximum_Cons [of x ys] b Cons by auto
  qed
  then show ?thesis
    by (simp only: normalizeSentiment_nested normalizeSentiment_flat
        normalizeEmotion_nested normalizeEmotion_flat)
qed

theorem normalizers_wrapped_unwrapped_witness:
  "normalizeEmotionResponse (JArr [JArr (map candidate_json
       [\<lparr>label = ''POSITIVE'', score = 9 / 10\<rparr>, \<lparr>label = ''NEGATIVE'', score = 1 / 10\<rparr>])])
     = Value [\<lparr>label = ''POSITIVE'', score = 9 / 10\<rparr>, \<lparr>label = ''NEGATIVE'', score = 1 / 10\<rparr>]
   \<and> normalizeSentimentResponse (JArr [JArr (map candidate_json
       [\<lparr>label = ''POSITIVE'', score = 9 / 10\<rparr>, \<lparr>label = ''NEGATIVE'', score = 1 / 10\<rparr>])])
     = normalizeSentimentResponse (JArr (map candidate_json
       [\<lparr>label = ''POSITIVE'', score = 9 / 10\<rparr>, \<lparr>label = ''NEGATIVE'', score = 1 / 10\<rparr>]))"
proof -
  let ?xs = "[\<lparr>label = ''POSITIVE'', score = 9 / 10\<rparr>, \<lparr>label = ''NEGATIVE'', score = 1 / 10\<rparr>]"
  have "?xs = [] \<or> (\<forall>e\<in>set ?xs. score e \<le> score (hd ?xs))" by simp
  with normalizers_wrapped_unwrapped [of ?xs] show ?thesis by blast
qed

text \<open>
  C6, as the specification states it, fails for the sentiment normalizer: of the candidates
  NEGATIVE at 0.1 and POSITIVE at 0.9, in this order, the wrapped payload normalizes to
  POSITIVE and the unwrapped payload to NEGATIVE.
\<close>

theorem normalizeSentiment_flat_counterexample:
  "normalizeSentimentResponse (JArr [JArr (map candidate_json
       [\<lparr>label = ''NEGATIVE'', score = 1 / 10\<rparr>, \<lparr>label = ''POSITIVE'', score = 9 / 10\<rparr>])])
     = Value \<lparr>label = ''POSITIVE'', score = 9 / 10\<rparr>
   \<and> normalizeSentimentResponse (JArr (map candidate_json
       [\<lparr>label = ''NEGATIVE'', score = 1 / 10\<rparr>, \<lparr>label = ''POSITIVE'', score = 9 / 10\<rparr>]))
     = Value \<lparr>label = ''NEGATIVE'', score = 1 / 10\<rparr>"
  by (simp add: candidate_json_def get_prop_def as_candidates_def sort_by_score_desc_def)

subsection \<open>The request handler\<close>

lemma post_simps:
  "req_method (post b) = ''POST''" "body (post b) = Some b"
  "authorization (post b) = Some ''Bearer jwt''"
  by (simp_all add: post_def)

lemma body_with_text_fields:
  "field (body_with_text t) ''entry_text'' = Some (JStr t)"
  "field (body_with_text t) ''journal_id'' = Some (JStr ''j1'')"
  "body_with_text t \<noteq> JNull"
  by (simp_all add: body_with_text_def get_prop_def)

lemma body_without_text_fields:
  "field body_without_text ''entry_text'' = None"
  "field body_without_text ''journal_id'' = Some (JStr ''j1'')"
  "body_without_text \<noteq> JNull"
  by (simp_all add: body_without_text_def get_prop_def)

lemma field_Some_not_JNull: "field b k = Some v \<Longrightarrow> b \<noteq> JNull"
  by (cases b) simp_all

lemma example_sentiment:
  "normalizeSentimentResponse sentiment_payload = Value \<lparr>label = ''POSITIVE'', score = 4 / 5\<rparr>"
  by (simp add: sentiment_payload_def candidate_json_def get_prop_def as_candidates_def
      sort_by_score_desc_def)

lemma analyse_emotion_calls:
  "analyse_emotion e entry_text s = Some (s', ems, calls) \<Longrightarrow>
     s' = s \<and> calls = [Fetch SentimentModel entry_text, Fetch EmotionModel entry_text]"
  by (auto simp: analyse_emotion_def Let_def split: fetch_result.splits normalized.splits)

lemma analyse_calls:
  assumes "analyse e entry_text = Some (s, ems, calls)"
  shows "(truthy (HF_TOKEN e) \<longrightarrow>
            calls = [Fetch SentimentModel entry_text]
          \<or> calls = [Fetch SentimentModel entry_text, Fetch EmotionModel entry_text])
       \<and> (\<not> truthy (HF_TOKEN e) \<longrightarrow> calls = [] \<and> s = defaultSentiment \<and> ems = defaultEmotions)"
  using assms
  by (auto simp: analyse_def split: if_splits fetch_result.splits normalized.splits
      dest: analyse_emotion_calls)

lemma Update_not_in_calls:
  assumes "analyse e entry_text = Some (s, ems, calls)"
  shows "Update fs j a \<notin> set calls"
  using analyse_calls [OF assms] by (cases "truthy (HF_TOKEN e)") auto

lemma analyse_no_token:
  "\<not> truthy (HF_TOKEN e) \<Longrightarrow> analyse e entry_text = Some (defaultSentiment, defaultEmotions, [])"
  by (simp add: analyse_def)

lemma analyse_emotion_not_ok:
  assumes "truthy (HF_TOKEN e)" and "sentimentResponse e = OkJson p"
    and "normalizeSentimentResponse p = Value s" and "emotionResponse e = NotOk"
  shows "analyse e entry_text = Some (s, defaultEmotions,
           [Fetch SentimentModel entry_text, Fetch EmotionModel entry_text])"
  using assms by (simp add: analyse_def analyse_emotion_def)

lemma analyse_both_not_ok:
  "analyse env_both_not_ok entry_text = Some (defaultSentiment, defaultEmotions,
     [Fetch SentimentModel entry_text, Fetch EmotionModel entry_text])"
  by (simp add: analyse_def analyse_emotion_def env_both_not_ok_def truthy_def)

lemma analyse_emotion_empty:
  "analyse env_emotion_empty entry_text = Some (\<lparr>label = ''POSITIVE'', score = 4 / 5\<rparr>, [],
     [Fetch SentimentModel entry_text, Fetch EmotionModel entry_text])"
  by (simp add: analyse_def analyse_emotion_def env_emotion_empty_def truthy_def
      example_sentiment as_candidates_def)

text \<open>The handler before the body is read, and after.\<close>

lemma serve_early:
  "req_method req = ''OPTIONS'' \<Longrightarrow> serve e req = Responds Preflight []"
  "req_method req \<noteq> ''OPTIONS'' \<Longrightarrow> body req = None \<Longrightarrow> serve e req = Responds Failure []"
  "req_method req \<noteq> ''OPTIONS'' \<Longrightarrow> body req = Some JNull \<Longrightarrow> serve e req = Responds Failure []"
  by (simp_all add: serve_def)

lemma serve_body:
  assumes "req_method req \<noteq> ''OPTIONS''" and "body req = Some b" and "b \<noteq> JNull"
  shows "serve e req =
     (case analyse e (field b ''entry_text'') of
        None \<Rightarrow> IllTypedPayload
      | Some (sentiment, emotions, calls) \<Rightarrow>
          (case calculateScores_any sentiment emotions (field b ''entry_text'') of
             Inl err \<Rightarrow> Responds Failure calls
           | Inr r \<Rightarrow>
               (if updateError e \<noteq> None
                then Responds Failure
                  (calls @ [Update (update_fields r) (field b ''journal_id'')
                     (case authorization req of None \<Rightarrow> [] | Some a \<Rightarrow> a)])
                else Responds (Success r)
                  (calls @ [Update (update_fields r) (field b ''journal_id'')
                     (case authorization req of None \<Rightarrow> [] | Some a \<Rightarrow> a)]))))"
  using assms by (cases b) (auto simp: serve_def Let_def split: option.splits sum.splits)

lemma serve_without_text:
  "serve env_both_not_ok (post body_without_text) =
     Responds Failure [Fetch SentimentModel None, Fetch EmotionModel None]"
  by (simp add: serve_body post_simps body_without_text_fields analyse_both_not_ok
      calculateScores_any_def)

lemma serve_empty_text:
  "serve env_both_not_ok (post (body_with_text [])) =
     Responds (Success \<lparr>stress_score = 1, happiness_score = 5,
                 therapy_note = generic_opener @ stress_low_remark @ short_closer\<rparr>)
       [Fetch SentimentModel (Some (JStr [])), Fetch EmotionModel (Some (JStr [])),
        Update (update_fields \<lparr>stress_score = 1, happiness_score = 5,
                 therapy_note = generic_opener @ stress_low_remark @ short_closer\<rparr>)
          (Some (JStr ''j1'')) ''Bearer jwt'']"
proof -
  have u: "updateError env_both_not_ok = None" by (simp add: env_both_not_ok_def)
  show ?thesis
    by (simp add: serve_body post_simps body_with_text_fields analyse_both_not_ok
        calculateScores_any_def calculateScores_defaultEmotions happiness_of_default
        generateTherapyNote_fragments opener_for_def stress_remark_for_def
        happiness_remark_for_def wordCount_empty u)
qed

lemma serve_null_body:
  "serve env_both_not_ok (post JNull) = Responds Failure []"
  by (simp add: serve_early post_simps)

text \<open>A missing entry text: the failure, no update, and no event at all without a token.\<close>

lemma serve_missing_text:
  assumes "req_method req \<noteq> ''OPTIONS''" and "serve e req = Responds resp evs"
    and "\<forall>t. entry_text_of req \<noteq> Some (JStr t)"
  shows "resp = Failure \<and> (\<forall>fs j a. Update fs j a \<notin> set evs)
       \<and> (\<not> truthy (HF_TOKEN e) \<longrightarrow> evs = [])"
proof (cases "body req = None \<or> body req = Some JNull")
  case True
  then have "serve e req = Responds Failure []" using serve_early(2,3) [OF assms(1)] by blast
  with assms(2) show ?thesis by simp
next
  case False
  then obtain b where b: "body req = Some b" "b \<noteq> JNull" by auto
  let ?et = "field b ''entry_text''"
  have ns: "\<forall>t. ?et \<noteq> Some (JStr t)" using assms(3) b by (simp add: entry_text_of_def)
  from assms(1,2) b obtain s ems calls where an: "analyse e ?et = Some (s, ems, calls)"
    by (cases "analyse e ?et") (auto simp: serve_body)
  have "calculateScores_any s ems ?et = Inl TypeError"
    using ns by (auto simp: calculateScores_any_def split: option.splits json.splits)
  then have "serve e req = Responds Failure calls"
    using assms(1) b an by (simp add: serve_body)
  with assms(2) have r: "resp = Failure" "evs = calls" by simp_all
  have "\<not> truthy (HF_TOKEN e) \<longrightarrow> calls = []" using analyse_calls [OF an] by simp
  then show ?thesis using r Update_not_in_calls [OF an] by simp
qed

lemma serve_first_call:
  assumes "req_method req \<noteq> ''OPTIONS''" and "serve e req = Responds resp evs"
    and "truthy (HF_TOKEN e)" and "body req = Some b" and "b \<noteq> JNull"
  shows "\<exists>rest. evs = Fetch SentimentModel (field b ''entry_text'') # rest"
proof -
  let ?et = "field b ''entry_text''"
  from assms obtain s ems calls where an: "analyse e ?et = Some (s, ems, calls)"
    by (cases "analyse e ?et") (auto simp: serve_body)
  have "\<exists>rest. evs = calls @ rest"
    using assms(1,2,4,5) an by (auto simp: serve_body split: sum.splits if_splits)
  then show ?thesis using analyse_calls [OF an] assms(3) by auto
qed

lemma serve_string_text:
  assumes "req_method req \<noteq> ''OPTIONS''" and "serve e req = Responds resp evs"
    and "body req = Some b" and "field b ''entry_text'' = Some (JStr t)"
    and "analyse e (Some (JStr t)) = Some (s, ems, calls)" and "ems \<noteq> []"
    and "updateError e = None"
  shows "\<exists>r. resp = Success r"
proof -
  have nn: "b \<noteq> JNull" using assms(4) by (rule field_Some_not_JNull)
  from assms(6) obtain x xs where "ems = x # xs" by (cases ems) auto
  then obtain d where "dominantEmotion ems = Inr d" by (simp add: dominantEmotion_def)
  then obtain r where "calculateScores_any s ems (Some (JStr t)) = Inr r"
    by (simp add: calculateScores_any_def calculateScores_def Let_def)
  then show ?thesis
    using assms(1-5,7) nn by (auto simp: serve_body)
qed

lemma serve_update_fields:
  assumes "serve e req = Responds resp evs" and "Update fs j a \<in> set evs"
  shows "\<exists>r. fs = update_fields r"
proof (cases "req_method req = ''OPTIONS'' \<or> body req = None \<or> body req = Some JNull")
  case True
  then have "serve e req = Responds Preflight [] \<or> serve e req = Responds Failure []"
    using serve_early [of req e] by blast
  then have "evs = []" using assms(1) by auto
  with assms(2) show ?thesis by simp
next
  case False
  then obtain b where b: "req_method req \<noteq> ''OPTIONS''" "body req = Some b" "b \<noteq> JNull" by auto
  let ?et = "field b ''entry_text''"
  from assms(1) b obtain s ems calls where an: "analyse e ?et = Some (s, ems, calls)"
    by (cases "analyse e ?et") (auto simp: serve_body)
  have "Update fs j a \<notin> set calls" using an by (rule Update_not_in_calls)
  then show ?thesis
    using assms b an by (auto simp: serve_body split: sum.splits if_splits)
qed

lemma apply_update_update_fields:
  "apply_update (update_fields r) row =
     row(''stress_score'' \<mapsto> DbInt (stress_score r), ''happiness_score'' \<mapsto> DbNull,
         ''therapy_note'' \<mapsto> DbText (therapy_note r), ''therapy_note_viewed'' \<mapsto> DbBool False)"
  by (simp add: apply_update_def update_fields_def)

text \<open>
  C10. When the inference credential is absent (the token is unset or empty), for every
  request that carries an entry text the scores are those of the defaults: the stress score
  is 1 and the happiness score is 5. No classifier is called; the only event is the update,
  and the response carries these scores unless the update reports an error.
\<close>

theorem no_credential_scores:
  assumes "\<not> truthy (HF_TOKEN e)" and "req_method req \<noteq> ''OPTIONS''" and "body req = Some b"
    and "field b ''entry_text'' = Some (JStr t)"
  shows "\<exists>r. stress_score r = 1 \<and> happiness_score r = 5
           \<and> calculateScores defaultSentiment defaultEmotions t = Inr r
           \<and> serve e req =
               Responds (if updateError e = None then Success r else Failure)
                 [Update (update_fields r) (field b ''journal_id'')
                    (case authorization req of None \<Rightarrow> [] | Some a \<Rightarrow> a)]"
proof -
  let ?r = "\<lparr>stress_score = 1, happiness_score = 5,
             therapy_note = generateTherapyNote ''neutral'' 1 5 t\<rparr>"
  have c: "calculateScores defaultSentiment defaultEmotions t = Inr ?r"
    by (simp add: calculateScores_defaultEmotions happiness_of_default)
  have "b \<noteq> JNull" using assms(4) by (rule field_Some_not_JNull)
  then have "serve e req =
               Responds (if updateError e = None then Success ?r else Failure)
                 [Update (update_fields ?r) (field b ''journal_id'')
                    (case authorization req of None \<Rightarrow> [] | Some a \<Rightarrow> a)]"
    using assms c by (simp add: serve_body analyse_no_token calculateScores_any_def)
  with c show ?thesis by (intro exI [of _ ?r]) simp
qed

theorem no_credential_scores_witness:
  "\<exists>r. stress_score r = 1 \<and> happiness_score r = 5
       \<and> calculateScores defaultSentiment defaultEmotions ''ok'' = Inr r
       \<and> serve env_no_token (post (body_with_text ''ok'')) =
           Responds (Success r) [Update (update_fields r) (Some (JStr ''j1'')) ''Bearer jwt'']"
proof -
  have h: "\<not> truthy (HF_TOKEN env_no_token)" "updateError env_no_token = None"
    by (simp_all add: env_no_token_def truthy_def)
  from no_credential_scores [of env_no_token "post (body_with_text ''ok'')" "body_with_text ''ok''" "''ok''"]
  show ?thesis
    by (simp add: h post_simps body_with_text_fields)
qed

text \<open>
  C1, as the code has it. When the token is set, the sentiment call succeeds and normalizes
  to a sentiment, and the emotion call answers with a non-success status, then for every
  request that carries an entry text both classifiers have been called, the scores are those
  of that sentiment and of the default emotion list: the happiness score is the clamped
  happiness of the sentiment, and the stress score is 1, since the default emotion neutral at
  confidence 1 takes the calm branch, round(5 - 1 * 4) = 1.
\<close>

theorem emotion_call_fails_scores:
  assumes "truthy (HF_TOKEN e)" and "req_method req \<noteq> ''OPTIONS''" and "body req = Some b"
    and "field b ''entry_text'' = Some (JStr t)"
    and "sentimentResponse e = OkJson p" and "normalizeSentimentResponse p = Value s"
    and "emotionResponse e = NotOk"
  shows "\<exists>r. stress_score r = 1 \<and> happiness_score r = max 1 (min 10 (happiness_of s))
           \<and> calculateScores s defaultEmotions t = Inr r
           \<and> serve e req =
               Responds (if updateError e = None then Success r else Failure)
                 [Fetch SentimentModel (Some (JStr t)), Fetch EmotionModel (Some (JStr t)),
                  Update (update_fields r) (field b ''journal_id'')
                    (case authorization req of None \<Rightarrow> [] | Some a \<Rightarrow> a)]"
proof -
  let ?r = "\<lparr>stress_score = 1, happiness_score = max 1 (min 10 (happiness_of s)),
             therapy_note = generateTherapyNote ''neutral'' 1 (happiness_of s) t\<rparr>"
  have c: "calculateScores s defaultEmotions t = Inr ?r"
    by (rule calculateScores_defaultEmotions)
  have a: "analyse e (Some (JStr t)) = Some (s, defaultEmotions,
           [Fetch SentimentModel (Some (JStr t)), Fetch EmotionModel (Some (JStr t))])"
    using assms(1,5,6,7) by (rule analyse_emotion_not_ok)
  have "b \<noteq> JNull" using assms(4) by (rule field_Some_not_JNull)
  then have "serve e req =
               Responds (if updateError e = None then Success ?r else Failure)
                 [Fetch SentimentModel (Some (JStr t)), Fetch EmotionModel (Some (JStr t)),
                  Update (update_fields ?r) (field b ''journal_id'')
                    (case authorization req of None \<Rightarrow> [] | Some a \<Rightarrow> a)]"
    using assms(2,3,4) a c by (simp add: serve_body calculateScores_any_def)
  with c show ?thesis by (intro exI [of _ ?r]) simp
qed

theorem emotion_call_fails_scores_witness:
  "\<exists>r. stress_score r = 1 \<and> happiness_score r = 9
       \<and> calculateScores \<lparr>label = ''POSITIVE'', score = 4 / 5\<rparr> defaultEmotions ''ok'' = Inr r
       \<and> serve env_emotion_not_ok (post (body_with_text ''ok'')) =
           Responds (Success r)
             [Fetch SentimentModel (Some (JStr ''ok'')), Fetch EmotionModel (Some (JStr ''ok'')),
              Update (update_fields r) (Some (JStr ''j1'')) ''Bearer jwt'']"
proof -
  have h: "truthy (HF_TOKEN env_emotion_not_ok)" "updateError env_emotion_not_ok = None"
    "emotionResponse env_emotion_not_ok = NotOk"
    "sentimentResponse env_emotion_not_ok = OkJson sentiment_payload"
    by (simp_all add: env_emotion_not_ok_def truthy_def)
  from emotion_call_fails_scores [of env_emotion_not_ok "post (body_with_text ''ok'')"
      "body_with_text ''ok''" "''ok''", OF h(1) _ _ _ h(4) example_sentiment h(3)]
  show ?thesis
    by (simp add: h(2) post_simps body_with_text_fields happiness_of_POSITIVE_08)
qed

text \<open>
  C1, as the specification states it, fails on the stress score: with the sentiment payload
  NEGATIVE at 0.2 and POSITIVE at 0.8, a non-success answer of the emotion call and the entry
  text "ok", the handler responds with the stress score 1, not 5.
\<close>

theorem emotion_call_fails_stress_counterexample:
  "serve env_emotion_not_ok (post (body_with_text ''ok'')) =
     Responds (Success \<lparr>stress_score = 1, happiness_score = 9,
                 therapy_note = generic_opener @ stress_low_remark @ happiness_high_remark @ short_closer\<rparr>)
       [Fetch SentimentModel (Some (JStr ''ok'')), Fetch EmotionModel (Some (JStr ''ok'')),
        Update (update_fields \<lparr>stress_score = 1, happiness_score = 9,
                 therapy_note = generic_opener @ stress_low_remark @ happiness_high_remark @ short_closer\<rparr>)
          (Some (JStr ''j1'')) ''Bearer jwt'']
   \<and> (1::int) \<noteq> 5"
proof -
  have a: "analyse env_emotion_not_ok (Some (JStr ''ok'')) =
      Some (\<lparr>label = ''POSITIVE'', score = 4 / 5\<rparr>, defaultEmotions,
        [Fetch SentimentModel (Some (JStr ''ok'')), Fetch EmotionModel (Some (JStr ''ok''))])"
    by (simp add: analyse_def analyse_emotion_def env_emotion_not_ok_def truthy_def
        example_sentiment)
  have u: "updateError env_emotion_not_ok = None" by (simp add: env_emotion_not_ok_def)
  show ?thesis
    by (simp add: serve_body post_simps body_with_text_fields a calculateScores_any_def
        calculateScores_defaultEmotions happiness_of_POSITIVE_08 generateTherapyNote_fragments
        opener_for_def stress_remark_for_def happiness_remark_for_def wordCount_ok u)
qed

text \<open>
  C3, as the code has it. For every invocation that the handler answers: when the entry text
  is missing (the body does not parse, is null, has no entry text, or has one that is not a
  string), the request is rejected, with the failure response and no update. The rejection
  comes before any classifier call, with no event at all, when the body does not parse or is
  null, and when the text is missing and the token is not set. When the token is set and the
  body parses to a value other than null, the first event is the sentiment classifier call,
  whatever the entry text is, so that a missing text is then rejected only after the calls,
  in the note generation. When the entry text is a string, the empty one included, the
  request is not rejected for its text: the response is a success whenever the emotion list
  is non-empty and the update reports no error.
\<close>

theorem entry_text_not_validated:
  assumes "req_method req \<noteq> ''OPTIONS''" and "serve e req = Responds resp evs"
  shows "((\<forall>t. entry_text_of req \<noteq> Some (JStr t)) \<longrightarrow>
             resp = Failure \<and> (\<forall>fs j a. Update fs j a \<notin> set evs))
       \<and> (((\<forall>t. entry_text_of req \<noteq> Some (JStr t)) \<and> \<not> truthy (HF_TOKEN e))
            \<or> body req = None \<or> body req = Some JNull \<longrightarrow> resp = Failure \<and> evs = [])
       \<and> (\<forall>b. truthy (HF_TOKEN e) \<and> body req = Some b \<and> b \<noteq> JNull \<longrightarrow>
             (\<exists>rest. evs = Fetch SentimentModel (field b ''entry_text'') # rest))
       \<and> (\<forall>t s ems calls. entry_text_of req = Some (JStr t)
             \<and> analyse e (Some (JStr t)) = Some (s, ems, calls) \<and> ems \<noteq> [] \<and> updateError e = None
             \<longrightarrow> (\<exists>r. resp = Success r))"
proof -
  have 1: "(\<forall>t. entry_text_of req \<noteq> Some (JStr t)) \<longrightarrow>
             resp = Failure \<and> (\<forall>fs j a. Update fs j a \<notin> set evs)"
    using serve_missing_text [OF assms] by blast
  have 2: "((\<forall>t. entry_text_of req \<noteq> Some (JStr t)) \<and> \<not> truthy (HF_TOKEN e))
            \<or> body req = None \<or> body req = Some JNull \<longrightarrow> resp = Failure \<and> evs = []"
  proof
    assume h: "((\<forall>t. entry_text_of req \<noteq> Some (JStr t)) \<and> \<not> truthy (HF_TOKEN e))
            \<or> body req = None \<or> body req = Some JNull"
    show "resp = Failure \<and> evs = []"
    proof (cases "body req = None \<or> body req = Some JNull")
      case True
      then have "serve e req = Responds Failure []" using serve_early(2,3) [OF assms(1)] by blast
      with assms(2) show ?thesis by simp
    next
      case False
      with h have "(\<forall>t. entry_text_of req \<noteq> Some (JStr t)) \<and> \<not> truthy (HF_TOKEN e)" by blast
      then show ?thesis using serve_missing_text [OF assms] by blast
    qed
  qed
  have 3: "\<forall>b. truthy (HF_TOKEN e) \<and> body req = Some b \<and> b \<noteq> JNull \<longrightarrow>
             (\<exists>rest. evs = Fetch SentimentModel (field b ''entry_text'') # rest)"
    using serve_first_call [OF assms] by blast
  have 4: "\<forall>t s ems calls. entry_text_of req = Some (JStr t)
             \<and> analyse e (Some (JStr t)) = Some (s, ems, calls) \<and> ems \<noteq> [] \<and> updateError e = None
             \<longrightarrow> (\<exists>r. resp = Success r)"
  proof (intro allI impI)
    fix t s ems calls
    assume h: "entry_text_of req = Some (JStr t)
             \<and> analyse e (Some (JStr t)) = Some (s, ems, calls) \<and> ems \<noteq> [] \<and> updateError e = None"
    then obtain b where b: "body req = Some b" "field b ''entry_text'' = Some (JStr t)"
      by (cases "body req") (auto simp: entry_text_of_def)
    show "\<exists>r. resp = Success r"
      using serve_string_text [OF assms b] h by blast
  qed
  from 1 2 3 4 show ?thesis by blast
qed

theorem entry_text_not_validated_witness:
  "serve env_both_not_ok (post JNull) = Responds Failure []
   \<and> serve env_both_not_ok (post body_without_text) =
       Responds Failure [Fetch SentimentModel None, Fetch EmotionModel None]
   \<and> (\<exists>rest. [Fetch SentimentModel None, Fetch EmotionModel None] = Fetch SentimentModel None # rest)
   \<and> (\<forall>fs j a. Update fs j a \<notin> set [Fetch SentimentModel None, Fetch EmotionModel None])"
proof -
  have t: "truthy (HF_TOKEN env_both_not_ok)" by (simp add: env_both_not_ok_def truthy_def)
  have m: "req_method (post b) \<noteq> ''OPTIONS''" for b by (simp add: post_simps)
  have et: "\<forall>t. entry_text_of (post body_without_text) \<noteq> Some (JStr t)"
    by (simp add: entry_text_of_def post_simps body_without_text_fields)
  have bd: "body (post body_without_text) = Some body_without_text" by (simp add: post_simps)
  from entry_text_not_validated [OF m serve_without_text] et t bd body_without_text_fields(3)
  have "\<forall>fs j a. Update fs j a \<notin> set [Fetch SentimentModel None, Fetch EmotionModel None]"
    by blast
  then show ?thesis by (simp add: serve_without_text serve_null_body)
qed

text \<open>
  C3, as the specification states it, fails in two ways when the token is set. A request with
  the empty entry text is not rejected: both classifiers are called with the empty text, the
  update is made and the response is a success. A request whose body has no entry text is
  rejected, but after both classifiers have been called.
\<close>

theorem entry_text_rejection_counterexample:
  "serve env_both_not_ok (post (body_with_text [])) =
     Responds (Success \<lparr>stress_score = 1, happiness_score = 5,
                 therapy_note = generic_opener @ stress_low_remark @ short_closer\<rparr>)
       [Fetch SentimentModel (Some (JStr [])), Fetch EmotionModel (Some (JStr [])),
        Update (update_fields \<lparr>stress_score = 1, happiness_score = 5,
                 therapy_note = generic_opener @ stress_low_remark @ short_closer\<rparr>)
          (Some (JStr ''j1'')) ''Bearer jwt'']
   \<and> field body_without_text ''entry_text'' = None
   \<and> serve env_both_not_ok (post body_without_text) =
       Responds Failure [Fetch SentimentModel None, Fetch EmotionModel None]"
  by (simp add: serve_empty_text serve_without_text body_without_text_fields)

text \<open>
  C7, the behaviour of the code at the empty list. The emotion normalizer returns the empty
  list itself for the payloads \<open>[]\<close> and \<open>[[]]\<close>, where the sentiment normalizer returns no
  result; the default emotions are not substituted, the score calculation throws on the
  empty list, and the handler answers with the failure, making no update.
\<close>

theorem empty_emotion_list_fails:
  "normalizeEmotionResponse (JArr []) = Value []
   \<and> normalizeEmotionResponse (JArr [JArr []]) = Value []
   \<and> normalizeSentimentResponse (JArr []) = Null
   \<and> normalizeSentimentResponse (JArr [JArr []]) = Null
   \<and> calculateScores \<lparr>label = ''POSITIVE'', score = 4 / 5\<rparr> [] ''ok'' = Inl TypeError
   \<and> serve env_emotion_empty (post (body_with_text ''ok'')) =
       Responds Failure [Fetch SentimentModel (Some (JStr ''ok'')), Fetch EmotionModel (Some (JStr ''ok''))]"
  by (simp add: as_candidates_def sort_by_score_desc_def calculateScores_def dominantEmotion_def
      serve_body post_simps body_with_text_fields analyse_emotion_empty calculateScores_any_def)

text \<open>
  C9. Every update that the handler makes carries exactly the four fields stress_score,
  happiness_score, therapy_note and therapy_note_viewed, in which happiness_score is null
  and therapy_note_viewed is false. Applied to any record, it stores these four values and
  leaves every other column as it was, entry_text, user_id and created_at among them.
\<close>

theorem update_writes_four_fields:
  assumes "serve e req = Responds resp evs" and "Update fs j a \<in> set evs"
  shows "map fst fs = [''stress_score'', ''happiness_score'', ''therapy_note'', ''therapy_note_viewed'']
       \<and> (\<exists>n. apply_update fs row ''stress_score'' = Some (DbInt n))
       \<and> apply_update fs row ''happiness_score'' = Some DbNull
       \<and> (\<exists>t. apply_update fs row ''therapy_note'' = Some (DbText t))
       \<and> apply_update fs row ''therapy_note_viewed'' = Some (DbBool False)
       \<and> (\<forall>k. k \<notin> set [''stress_score'', ''happiness_score'', ''therapy_note'', ''therapy_note_viewed'']
             \<longrightarrow> apply_update fs row k = row k)
       \<and> apply_update fs row ''entry_text'' = row ''entry_text''
       \<and> apply_update fs row ''user_id'' = row ''user_id''
       \<and> apply_update fs row ''created_at'' = row ''created_at''"
proof -
  from serve_update_fields [OF assms] obtain r where r: "fs = update_fields r" ..
  show ?thesis
    unfolding r apply_update_update_fields by (simp add: update_fields_def)
qed

theorem update_writes_four_fields_witness:
  "apply_update (update_fields \<lparr>stress_score = 1, happiness_score = 5,
        therapy_note = generic_opener @ stress_low_remark @ short_closer\<rparr>)
      [''entry_text'' \<mapsto> DbText [], ''happiness_score'' \<mapsto> DbInt 7] ''happiness_score'' = Some DbNull
   \<and> apply_update (update_fields \<lparr>stress_score = 1, happiness_score = 5,
        therapy_note = generic_opener @ stress_low_remark @ short_closer\<rparr>)
      [''entry_text'' \<mapsto> DbText [], ''happiness_score'' \<mapsto> DbInt 7] ''entry_text'' = Some (DbText [])"
proof -
  let ?r = "\<lparr>stress_score = 1, happiness_score = 5,
        therapy_note = generic_opener @ stress_low_remark @ short_closer\<rparr>"
  let ?evs = "[Fetch SentimentModel (Some (JStr [])), Fetch EmotionModel (Some (JStr [])),
        Update (update_fields ?r) (Some (JStr ''j1'')) ''Bearer jwt'']"
  have s: "serve env_both_not_ok (post (body_with_text [])) = Responds (Success ?r) ?evs"
    by (rule serve_empty_text)
  have m: "Update (update_fields ?r) (Some (JStr ''j1'')) ''Bearer jwt'' \<in> set ?evs" by simp
  from update_writes_four_fields [OF s m, of "[''entry_text'' \<mapsto> DbText [], ''happiness_score'' \<mapsto> DbInt 7]"]
  show ?thesis by simp
qed

end
